theory Spec2Isabelle
  imports Complex_Main
begin

section \<open>JavaScript values\<close>

text \<open>
  The handler of \<^verbatim>\<open>api/generate.js\<close> works on untyped JavaScript values: whatever
  \<^verbatim>\<open>JSON.parse\<close> returns, request bodies, query parameters, and the objects handed to
  \<^verbatim>\<open>res.json\<close>. An object is the list of its own properties in insertion order; the first
  binding of a key is the property's value. Numbers are reals: \<^verbatim>\<open>NaN\<close> is not a JSON value,
  and both zeros of JavaScript are the one falsy number \<open>0\<close>. Strings are lists of 8-bit
  characters.
\<close>

datatype jsval =
    JUndefined
  | JNull
  | JBool bool
  | JNum real
  | JStr string
  | JArr "jsval list"
  | JObj "(string \<times> jsval) list"

text \<open>ToBoolean, as used by \<^verbatim>\<open>!x\<close>, \<^verbatim>\<open>x || y\<close>, \<^verbatim>\<open>x && y\<close> and \<^verbatim>\<open>if (x)\<close>.\<close>

fun truthy :: "jsval \<Rightarrow> bool" where
  "truthy JUndefined = False"
| "truthy JNull = False"
| "truthy (JBool b) = b"
| "truthy (JNum n) = (n \<noteq> 0)"
| "truthy (JStr s) = (s \<noteq> [])"
| "truthy (JArr xs) = True"
| "truthy (JObj kvs) = True"

text \<open>\<^verbatim>\<open>a || b\<close>: the left operand when it is truthy, the right one otherwise.\<close>

definition js_or :: "jsval \<Rightarrow> jsval \<Rightarrow> jsval" where
  "js_or a b = (if truthy a then a else b)"

text \<open>\<^verbatim>\<open>Array.isArray(x)\<close>.\<close>

fun isArray :: "jsval \<Rightarrow> bool" where
  "isArray (JArr xs) = True"
| "isArray v = False"

fun nullish :: "jsval \<Rightarrow> bool" where
  "nullish JUndefined = True"
| "nullish JNull = True"
| "nullish v = False"

text \<open>
  A thrown error, with the value of its \<^verbatim>\<open>message\<close> property (all the handler reads of it).
\<close>

datatype js_exn = Exn (message: jsval)

text \<open>
  The \<^verbatim>\<open>TypeError\<close> of a property read on \<^verbatim>\<open>null\<close> or \<^verbatim>\<open>undefined\<close>, in the wording of V8
  (the engine of Node.js).
\<close>

definition type_error :: "jsval \<Rightarrow> string \<Rightarrow> js_exn" where
  "type_error v k =
     Exn (JStr (''Cannot read properties of '' @ (if v = JNull then ''null'' else ''undefined'')
                @ '' (reading '' @ [CHR 0x27] @ k @ [CHR 0x27] @ '')''))"

text \<open>
  \<^verbatim>\<open>v[k]\<close> and \<^verbatim>\<open>v.k\<close> on a value that is neither \<^verbatim>\<open>null\<close> nor \<^verbatim>\<open>undefined\<close>, for the property
  names the handler reads (\<^verbatim>\<open>title\<close>, \<^verbatim>\<open>summary\<close>, \<^verbatim>\<open>steps\<close>, \<^verbatim>\<open>tips\<close>, \<^verbatim>\<open>timeEstimate\<close>,
  \<^verbatim>\<open>difficulty\<close>, \<^verbatim>\<open>prompt\<close>, \<^verbatim>\<open>blockReason\<close>, \<^verbatim>\<open>length\<close>): an own property of an object,
  the length of an array or of a string, and \<^verbatim>\<open>undefined\<close> everywhere else (none of these
  names is a property of a built-in prototype).
\<close>

fun read_prop :: "jsval \<Rightarrow> string \<Rightarrow> jsval" where
  "read_prop (JObj kvs) k = (case map_of kvs k of Some x \<Rightarrow> x | None \<Rightarrow> JUndefined)"
| "read_prop (JArr xs) k = (if k = ''length'' then JNum (real (length xs)) else JUndefined)"
| "read_prop (JStr s) k = (if k = ''length'' then JNum (real (length s)) else JUndefined)"
| "read_prop v k = JUndefined"

text \<open>The same read where the receiver may be \<^verbatim>\<open>null\<close> or \<^verbatim>\<open>undefined\<close>: it throws there.\<close>

definition get_prop :: "jsval \<Rightarrow> string \<Rightarrow> js_exn + jsval" where
  "get_prop v k = (if nullish v then Inl (type_error v k) else Inr (read_prop v k))"

text \<open>Optional chaining \<^verbatim>\<open>v?.k\<close>.\<close>

definition opt_prop :: "jsval \<Rightarrow> string \<Rightarrow> jsval" where
  "opt_prop v k = (if nullish v then JUndefined else read_prop v k)"

section \<open>Strings\<close>

text \<open>
  \<^verbatim>\<open>s.replace(pat, rep)\<close> with a string pattern: the first occurrence only. The handler
  calls it with the replacement \<^verbatim>\<open>""\<close>, which has no \<^verbatim>\<open>$\<close> patterns.
\<close>

fun replace_first :: "string \<Rightarrow> string \<Rightarrow> string \<Rightarrow> string" where
  "replace_first pat rep [] = (if pat = [] then rep else [])"
| "replace_first pat rep (c # cs) =
     (if take (length pat) (c # cs) = pat then rep @ drop (length pat) (c # cs)
      else c # replace_first pat rep cs)"

text \<open>
  \<^verbatim>\<open>s.replace(/<pat>\n?/g, "")\<close> for a literal, non-empty \<open>pat\<close>: scanning from the left,
  every occurrence of \<open>pat\<close> is deleted together with one line feed that follows it, if
  there is one; the scan goes on after the deleted text.
\<close>

function strip_marker :: "string \<Rightarrow> string \<Rightarrow> string" where
  "strip_marker pat [] = []"
| "strip_marker pat (c # cs) =
     (if pat \<noteq> [] \<and> take (length pat) (c # cs) = pat
      then (let r = drop (length pat) (c # cs)
            in strip_marker pat (if r \<noteq> [] \<and> hd r = CHR 0x0A then tl r else r))
      else c # strip_marker pat cs)"
  by pat_completeness auto
termination
  by (relation "measure (\<lambda>(pat, s). length s)") (auto simp: Let_def)

text \<open>
  The white space and line terminators that \<^verbatim>\<open>trim\<close> removes, among the 8-bit characters:
  tab, line feed, vertical tab, form feed, carriage return, space, no-break space.
\<close>

definition js_space :: "char \<Rightarrow> bool" where
  "js_space c = (c \<in> set [CHR 0x09, CHR 0x0A, CHR 0x0B, CHR 0x0C, CHR 0x0D, CHR 0x20, CHR 0xA0])"

definition trim :: "string \<Rightarrow> string" where
  "trim s = rev (dropWhile js_space (rev (dropWhile js_space s)))"

text \<open>\<^verbatim>\<open>xs.join(sep)\<close> on an array of strings.\<close>

fun join :: "string \<Rightarrow> string list \<Rightarrow> string" where
  "join sep [] = []"
| "join sep [x] = x"
| "join sep (x # y # ys) = x @ sep @ join sep (y # ys)"

section \<open>Configuration, requests, the upstream model\<close>

text \<open>
  \<^verbatim>\<open>process.env.API_KEY\<close> and \<^verbatim>\<open>process.env.GEMINI_API_KEY\<close>: a string or \<^verbatim>\<open>undefined\<close>.
\<close>

record config =
  API_KEY :: "string option"
  GEMINI_API_KEY :: "string option"

text \<open>Truthiness of an environment variable: set, and not the empty string.\<close>

fun env_set :: "string option \<Rightarrow> bool" where
  "env_set None = False"
| "env_set (Some s) = (s \<noteq> [])"

text \<open>
  \<^verbatim>\<open>genAI\<close> is assigned at module load exactly when \<^verbatim>\<open>GEMINI_API_KEY\<close> is truthy; the model
  records whether the client exists.
\<close>

definition genAI :: "config \<Rightarrow> bool" where
  "genAI cfg = env_set (GEMINI_API_KEY cfg)"

definition MODEL_ID :: string where
  "MODEL_ID = ''gemini-2.5-flash-preview-05-20''"

definition SYSTEM_PROMPT :: string where
  \<open>SYSTEM_PROMPT = join [CHR 0x0A] [
     ''You are QuickFix, a helpful assistant that provides straightforward, step-by-step instructions for everyday tasks and questions.'',
     '''',
     ''You must respond with a JSON object in the following format:'',
     ''{'',
     ''  "title": "Brief title describing the task",'',
     ''  "summary": "One sentence summary of what this accomplishes",'',
     ''  "steps": ['',
     ''    "Step 1 description",'',
     ''    "Step 2 description",'',
     ''    "Step 3 description"'',
     ''  ],'',
     ''  "tips": ["Optional helpful tip 1", "Optional helpful tip 2"],'',
     ''  "timeEstimate": "Estimated time to complete (e.g., '5 minutes', '30 seconds')",'',
     ''  "difficulty": "easy|medium|hard"'',
     ''}'',
     '''',
     ''Guidelines:'',
     ''- Keep steps concise and actionable'',
     ''- Use plain, friendly language'',
     ''- Include 2-8 steps typically'',
     ''- Tips are optional but helpful'',
     ''- Always provide realistic time estimates'',
     ''- Set difficulty appropriately'',
     '''',
     ''Example:'',
     ''User: How can I make pasta?'',
     ''Response:'',
     ''{'',
     ''  "title": "Cook Basic Pasta",'',
     ''  "summary": "Boil pasta in salted water until tender",'',
     ''  "steps": ['',
     ''    "Fill a large pot with water and bring to a rolling boil",'',
     ''    "Add 1-2 tablespoons of salt to the boiling water",'',
     ''    "Add pasta and stir occasionally to prevent sticking",'',
     ''    "Cook for 8-12 minutes (check package directions)",'',
     ''    "Drain pasta in a colander and serve immediately"'',
     ''  ],'',
     ''  "tips": ['',
     ''    "Use about 4-6 quarts of water per pound of pasta",'',
     ''    "Save some pasta water before draining - it's great for sauce"'',
     ''  ],'',
     ''  "timeEstimate": "15 minutes",'',
     ''  "difficulty": "easy"'',
     ''}'']\<close>

text \<open>
  The request as the platform hands it over: header names are lower-case and header values
  strings; a query parameter is a string, or an array of strings when it is repeated; the
  body is the parsed JSON body, \<^verbatim>\<open>undefined\<close> when there is none.
\<close>

record request =
  req_method :: string
  req_headers :: "string \<rightharpoonup> string"
  req_query :: "string \<rightharpoonup> jsval"
  req_body :: jsval

definition header :: "request \<Rightarrow> string \<Rightarrow> jsval" where
  "header req k = (case req_headers req k of None \<Rightarrow> JUndefined | Some s \<Rightarrow> JStr s)"

definition query :: "request \<Rightarrow> string \<Rightarrow> jsval" where
  "query req k = (case req_query req k of None \<Rightarrow> JUndefined | Some v \<Rightarrow> v)"

text \<open>
  What lines 115 to 132 of the handler obtain from the SDK for a prompt: an exception
  (from \<^verbatim>\<open>getGenerativeModel\<close>, \<^verbatim>\<open>generateContent\<close>, \<^verbatim>\<open>result.response\<close> or \<^verbatim>\<open>response.text()\<close>), or the
  text of the completion together with the value of \<^verbatim>\<open>response.promptFeedback\<close>.
\<close>

datatype upstream_result =
    Failure js_exn
  | Completion string jsval

text \<open>
  The services of the JavaScript runtime that the handler calls and that are not modelled
  further: \<^verbatim>\<open>JSON.parse\<close> (\<open>None\<close> when it throws), the string conversion of a value that is
  not a string inside a template literal, and \<^verbatim>\<open>new Date().toISOString()\<close>.
\<close>

record runtime =
  json_parse :: "string \<Rightarrow> jsval option"
  to_string :: "jsval \<Rightarrow> string"
  now_iso :: string

definition template_string :: "runtime \<Rightarrow> jsval \<Rightarrow> string" where
  "template_string rt v = (case v of JStr s \<Rightarrow> s | _ \<Rightarrow> to_string rt v)"

record response =
  status :: nat
  json :: jsval

text \<open>
  The handler either sends one response, or an exception escapes it (the read of
  \<^verbatim>\<open>req.body.prompt\<close> stands outside the \<^verbatim>\<open>try\<close>).
\<close>

datatype result = Sent response | Uncaught js_exn

section \<open>The handler\<close>

text \<open>
  Lines 67 to 70. The three sources are read for every method; \<^verbatim>\<open>||\<close> keeps the first truthy
  one. The \<^verbatim>\<open>authorization\<close> header loses the first occurrence of \<^verbatim>\<open>"Bearer "\<close>.
\<close>

definition bearerToken :: "request \<Rightarrow> jsval" where
  "bearerToken req =
     (case req_headers req ''authorization'' of
        None \<Rightarrow> JUndefined
      | Some a \<Rightarrow> JStr (replace_first ''Bearer '' [] a))"

definition providedApiKey :: "request \<Rightarrow> jsval" where
  "providedApiKey req =
     js_or (header req ''x-api-key'') (js_or (bearerToken req) (query req ''api_key''))"

definition env_value :: "string option \<Rightarrow> jsval" where
  "env_value e = (case e of None \<Rightarrow> JUndefined | Some s \<Rightarrow> JStr s)"

text \<open>Lines 97 to 102: \<^verbatim>\<open>req.body.prompt\<close> throws when there is no body.\<close>

definition userPrompt :: "request \<Rightarrow> js_exn + jsval" where
  "userPrompt req =
     (if req_method req = ''POST'' then get_prop (req_body req) ''prompt''
      else if req_method req = ''GET'' then Inr (js_or (query req ''prompt'') (query req ''q''))
      else Inr JUndefined)"

text \<open>Lines 125 to 128.\<close>

definition fullPrompt :: "runtime \<Rightarrow> jsval \<Rightarrow> string" where
  "fullPrompt rt p =
     SYSTEM_PROMPT @ [CHR 0x0A, CHR 0x0A] @ ''User: '' @ template_string rt p
       @ [CHR 0x0A] @ ''Response:''"

text \<open>Lines 146 to 149.\<close>

definition cleanText :: "string \<Rightarrow> string" where
  "cleanText text = trim (strip_marker ''```'' (strip_marker ''```json'' text))"

definition requiredFields :: "string list" where
  "requiredFields = [''title'', ''summary'', ''steps'']"

text \<open>Lines 177 to 179, for a parsed value that is not \<^verbatim>\<open>null\<close>.\<close>

definition missingFields :: "jsval \<Rightarrow> string list" where
  "missingFields parsedResponse =
     filter (\<lambda>field. \<not> truthy (read_prop parsedResponse field)) requiredFields"

text \<open>
  Lines 176 to 219: the response built from a parsed value. \<^verbatim>\<open>JSON.parse\<close> may return
  \<^verbatim>\<open>null\<close>; then the first read \<^verbatim>\<open>parsedResponse["title"]\<close> throws.
\<close>

definition respond_parsed :: "runtime \<Rightarrow> string \<Rightarrow> jsval \<Rightarrow> js_exn + response" where
  "respond_parsed rt text parsedResponse =
     (if nullish parsedResponse then Inl (type_error parsedResponse ''title'')
      else if length (missingFields parsedResponse) > 0 then
        Inr \<lparr>status = 200, json = JObj [
          (''success'', JBool True),
          (''data'', JObj [
             (''title'', js_or (read_prop parsedResponse ''title'') (JStr ''QuickFix Response'')),
             (''summary'', js_or (read_prop parsedResponse ''summary'') (JStr ''Generated response'')),
             (''steps'', if isArray (read_prop parsedResponse ''steps'')
                         then read_prop parsedResponse ''steps'' else JArr []),
             (''tips'', if isArray (read_prop parsedResponse ''tips'')
                        then read_prop parsedResponse ''tips'' else JArr []),
             (''timeEstimate'', js_or (read_prop parsedResponse ''timeEstimate'') (JStr ''Unknown'')),
             (''difficulty'', js_or (read_prop parsedResponse ''difficulty'') (JStr ''unknown'')),
             (''content'', JStr text)]),
          (''metadata'', JObj [
             (''timestamp'', JStr (now_iso rt)),
             (''model'', JStr MODEL_ID),
             (''warning'', JStr (''Missing fields: '' @ join '', '' (missingFields parsedResponse)))])]\<rparr>
      else
        Inr \<lparr>status = 200, json = JObj [
          (''success'', JBool True),
          (''data'', JObj [
             (''title'', read_prop parsedResponse ''title''),
             (''summary'', read_prop parsedResponse ''summary''),
             (''steps'', read_prop parsedResponse ''steps''),
             (''tips'', js_or (read_prop parsedResponse ''tips'') (JArr [])),
             (''timeEstimate'', js_or (read_prop parsedResponse ''timeEstimate'') (JStr ''Unknown'')),
             (''difficulty'', js_or (read_prop parsedResponse ''difficulty'') (JStr ''unknown''))]),
          (''metadata'', JObj [
             (''timestamp'', JStr (now_iso rt)),
             (''model'', JStr MODEL_ID),
             (''stepCount'', js_or (opt_prop (read_prop parsedResponse ''steps'') ''length'') (JNum 0))])]\<rparr>)"

text \<open>
  Lines 144 to 173 and what follows: the inner \<^verbatim>\<open>try\<close> catches the failure of
  \<^verbatim>\<open>JSON.parse\<close> and answers with the raw text.
\<close>

definition parse_and_respond :: "runtime \<Rightarrow> string \<Rightarrow> js_exn + response" where
  "parse_and_respond rt text =
     (case json_parse rt (cleanText text) of
        None \<Rightarrow>
          Inr \<lparr>status = 200, json = JObj [
            (''success'', JBool True),
            (''data'', JObj [
               (''title'', JStr ''QuickFix Response''),
               (''summary'', JStr ''Generated response''),
               (''content'', JStr text),
               (''steps'', JArr []),
               (''tips'', JArr []),
               (''timeEstimate'', JStr ''Unknown''),
               (''difficulty'', JStr ''unknown'')]),
            (''metadata'', JObj [
               (''timestamp'', JStr (now_iso rt)),
               (''model'', JStr MODEL_ID),
               (''parseError'', JStr ''Response was not valid JSON'')])]\<rparr>
      | Some parsedResponse \<Rightarrow> respond_parsed rt text parsedResponse)"

text \<open>
  The body of the outer \<^verbatim>\<open>try\<close> (lines 115 to 219): \<open>Inl\<close> is an exception that reaches the
  \<^verbatim>\<open>catch\<close> of line 220.
\<close>

definition try_body :: "runtime \<Rightarrow> (string \<Rightarrow> upstream_result) \<Rightarrow> jsval \<Rightarrow> js_exn + response" where
  "try_body rt upstream p =
     (case upstream (fullPrompt rt p) of
        Failure e \<Rightarrow> Inl e
      | Completion text promptFeedback \<Rightarrow>
          if text = [] \<and> truthy (opt_prop promptFeedback ''blockReason'') then
            Inr \<lparr>status = 400, json = JObj [
              (''success'', JBool False),
              (''error'', JStr ''Content generation blocked''),
              (''reason'', read_prop promptFeedback ''blockReason'')]\<rparr>
          else parse_and_respond rt text)"

text \<open>
  Lines 114 to 227. The second component lists the prompts the upstream model was called
  with.
\<close>

definition generate ::
  "runtime \<Rightarrow> (string \<Rightarrow> upstream_result) \<Rightarrow> jsval \<Rightarrow> result \<times> string list" where
  "generate rt upstream p =
     (case try_body rt upstream p of
        Inl error \<Rightarrow>
          Sent \<lparr>status = 500, json = JObj [
            (''success'', JBool False),
            (''error'', JStr ''Failed to generate response''),
            (''details'', message error)]\<rparr>
      | Inr r \<Rightarrow> Sent r,
      [fullPrompt rt p])"

text \<open>The exported handler, lines 58 to 228.\<close>

definition handler ::
  "config \<Rightarrow> runtime \<Rightarrow> (string \<Rightarrow> upstream_result) \<Rightarrow> request \<Rightarrow> result \<times> string list" where
  "handler cfg rt upstream req =
     (if req_method req \<noteq> ''POST'' \<and> req_method req \<noteq> ''GET'' then
        (Sent \<lparr>status = 405, json = JObj [
           (''error'', JStr ''Method not allowed. Use GET or POST.'')]\<rparr>, [])
      else if \<not> env_set (API_KEY cfg) then
        (Sent \<lparr>status = 500, json = JObj [
           (''error'', JStr ''API_KEY is not configured on server.'')]\<rparr>, [])
      else if \<not> truthy (providedApiKey req) then
        (Sent \<lparr>status = 401, json = JObj [
           (''error'', JStr ''API key is required.''),
           (''methods'', JObj [
              (''POST'', JStr ''Provide in 'x-api-key' header or 'Authorization: Bearer <key>' header''),
              (''GET'', JStr ''Provide in 'api_key' query parameter, 'x-api-key' header, or 'Authorization: Bearer <key>' header'')])]\<rparr>, [])
      else if providedApiKey req \<noteq> env_value (API_KEY cfg) then
        (Sent \<lparr>status = 403, json = JObj [(''error'', JStr ''Invalid API key.'')]\<rparr>, [])
      else if \<not> (env_set (GEMINI_API_KEY cfg) \<and> genAI cfg) then
        (Sent \<lparr>status = 500, json = JObj [
           (''error'', JStr ''GEMINI_API_KEY is not configured.'')]\<rparr>, [])
      else
        (case userPrompt req of
           Inl e \<Rightarrow> (Uncaught e, [])
         | Inr p \<Rightarrow>
             if \<not> truthy p then
               (Sent \<lparr>status = 400, json = JObj [
                  (''error'', JStr ''Prompt is required.''),
                  (''usage'', JObj [
                     (''POST'', JStr ''Include 'prompt' in request body JSON''),
                     (''GET'', JStr ''Include 'prompt' or 'q' as query parameter'')])]\<rparr>, [])
             else generate rt upstream p))"

section \<open>Vocabulary of the properties\<close>

text \<open>The status and the JSON body of the response that was sent, if one was.\<close>

fun sent_status :: "result \<times> string list \<Rightarrow> nat option" where
  "sent_status (Sent r, calls) = Some (status r)"
| "sent_status (Uncaught e, calls) = None"

fun sent_json :: "result \<times> string list \<Rightarrow> jsval" where
  "sent_json (Sent r, calls) = json r"
| "sent_json (Uncaught e, calls) = JUndefined"

text \<open>\<^verbatim>\<open>body.data.<k>\<close> of a response body.\<close>

definition data_field :: "jsval \<Rightarrow> string \<Rightarrow> jsval" where
  "data_field b k = read_prop (read_prop b ''data'') k"

definition metadata_field :: "jsval \<Rightarrow> string \<Rightarrow> jsval" where
  "metadata_field b k = read_prop (read_prop b ''metadata'') k"

text \<open>
  The requests that pass the checks of lines 60 to 94: an allowed method, both keys
  configured, and a provided credential equal to the configured one.
\<close>

definition authorized :: "config \<Rightarrow> request \<Rightarrow> bool" where
  "authorized cfg req =
     ((req_method req = ''POST'' \<or> req_method req = ''GET'')
      \<and> env_set (API_KEY cfg)
      \<and> providedApiKey req = env_value (API_KEY cfg)
      \<and> env_set (GEMINI_API_KEY cfg))"

text \<open>
  The requests that reach the \<^verbatim>\<open>try\<close> of line 114 with the prompt \<open>p\<close>: authorized, and the
  extracted prompt is truthy.
\<close>

definition reaches_generation :: "config \<Rightarrow> request \<Rightarrow> jsval \<Rightarrow> bool" where
  "reaches_generation cfg req p =
     (authorized cfg req \<and> userPrompt req = Inr p \<and> truthy p)"

text \<open>
  Concrete inputs for the instances below: a server with both keys set, a runtime whose
  \<^verbatim>\<open>JSON.parse\<close> is given by a finite table of texts and their values (it throws on every
  other text), and a POST request with the key in the \<^verbatim>\<open>x-api-key\<close> header.
\<close>

definition example_config :: config where
  "example_config = \<lparr>API_KEY = Some ''secret'', GEMINI_API_KEY = Some ''gemini-key''\<rparr>"

definition example_runtime :: "(string \<times> jsval) list \<Rightarrow> runtime" where
  "example_runtime table =
     \<lparr>json_parse = map_of table, to_string = (\<lambda>v. []), now_iso = ''2025-06-01T12:00:00.000Z''\<rparr>"

definition example_post :: "jsval \<Rightarrow> request" where
  "example_post b =
     \<lparr>req_method = ''POST'', req_headers = [''x-api-key'' \<mapsto> ''secret''],
      req_query = Map.empty, req_body = b\<rparr>"

section \<open>Auxiliary facts\<close>

lemma authorized_truthy_key:
  "authorized cfg req \<Longrightarrow> truthy (providedApiKey req)"
  unfolding authorized_def by (cases "API_KEY cfg") (auto simp: env_value_def)

lemma handler_authorized:
  "authorized cfg req \<Longrightarrow>
   handler cfg rt upstream req =
     (case userPrompt req of
        Inl e \<Rightarrow> (Uncaught e, [])
      | Inr p \<Rightarrow>
          if \<not> truthy p then
            (Sent \<lparr>status = 400, json = JObj [
               (''error'', JStr ''Prompt is required.''),
               (''usage'', JObj [
                  (''POST'', JStr ''Include 'prompt' in request body JSON''),
                  (''GET'', JStr ''Include 'prompt' or 'q' as query parameter'')])]\<rparr>, [])
          else generate rt upstream p)"
  using authorized_truthy_key [of cfg req]
  unfolding authorized_def handler_def genAI_def by auto

lemma handler_reaches_generation:
  "reaches_generation cfg req p \<Longrightarrow> handler cfg rt upstream req = generate rt upstream p"
  unfolding reaches_generation_def by (simp add: handler_authorized)

lemma example_post_authorized: "authorized example_config (example_post b)"
  by (simp add: authorized_def example_config_def example_post_def providedApiKey_def
      header_def js_or_def env_value_def)

lemma example_post_reaches:
  "reaches_generation example_config (example_post (JObj [(''prompt'', JStr ''How can I make pasta?'')]))
     (JStr ''How can I make pasta?'')"
  by (simp add: reaches_generation_def example_post_authorized userPrompt_def get_prop_def)
     (simp add: example_post_def)

lemma clean_fenced_example:
  \<open>cleanText ''```json\<newline>{"title":"T","summary":"S","steps":["a","b"]}\<newline>```'' =
     ''{"title":"T","summary":"S","steps":["a","b"]}''\<close>
  by (simp add: cleanText_def trim_def js_space_def)

lemma respond_parsed_status:
  "respond_parsed rt raw v = Inr r \<Longrightarrow> status r = 200"
  unfolding respond_parsed_def by (auto split: if_splits)

lemma parse_and_respond_status:
  "parse_and_respond rt raw = Inr r \<Longrightarrow> status r = 200"
  unfolding parse_and_respond_def by (auto split: option.splits dest: respond_parsed_status)

lemma try_body_status:
  "try_body rt upstream p = Inr r \<Longrightarrow> status r = 200 \<or> status r = 400"
  unfolding try_body_def
  by (auto split: upstream_result.splits if_splits dest: parse_and_respond_status)

lemma generate_calls: "snd (generate rt upstream p) = [fullPrompt rt p]"
  by (simp add: generate_def)

lemma generate_status:
  "sent_status (generate rt upstream p) =
     (case try_body rt upstream p of Inl e \<Rightarrow> Some 500 | Inr r \<Rightarrow> Some (status r))"
  by (simp add: generate_def split: sum.splits)

lemma sent_status_fst:
  "sent_status x = (case fst x of Sent r \<Rightarrow> Some (status r) | Uncaught e \<Rightarrow> None)"
  by (cases x rule: sent_status.cases) simp_all

lemma sent_json_fst:
  "sent_json x = (case fst x of Sent r \<Rightarrow> json r | Uncaught e \<Rightarrow> JUndefined)"
  by (cases x rule: sent_json.cases) simp_all

lemma falsy_prompt_no_call:
  "userPrompt req = Inr p \<Longrightarrow> \<not> truthy p \<Longrightarrow> snd (handler cfg rt upstream req) = []"
  unfolding handler_def by simp

lemma authorized_status:
  assumes "authorized cfg req"
  shows "sent_status (handler cfg rt upstream req) \<in> {None, Some 200, Some 400, Some 500}"
proof (cases "userPrompt req")
  case (Inl x)
  then show ?thesis by (simp add: handler_authorized [OF assms])
next
  case (Inr q)
  then show ?thesis
    by (auto simp: handler_authorized [OF assms] generate_status
        split: if_splits sum.splits dest: try_body_status)
qed

lemma sent_401_iff:
  "sent_status (handler cfg rt upstream req) = Some 401 \<longleftrightarrow>
     (req_method req = ''POST'' \<or> req_method req = ''GET'') \<and> env_set (API_KEY cfg)
     \<and> \<not> truthy (providedApiKey req)"
proof (cases "authorized cfg req")
  case True
  then show ?thesis
    using authorized_status [OF True, of rt upstream] authorized_truthy_key [OF True]
    by auto
next
  case False
  then show ?thesis
    unfolding authorized_def handler_def genAI_def by auto
qed

lemma sent_403_iff:
  "sent_status (handler cfg rt upstream req) = Some 403 \<longleftrightarrow>
     (req_method req = ''POST'' \<or> req_method req = ''GET'') \<and> env_set (API_KEY cfg)
     \<and> truthy (providedApiKey req) \<and> providedApiKey req \<noteq> env_value (API_KEY cfg)"
proof (cases "authorized cfg req")
  case True
  then show ?thesis
    using authorized_status [OF True, of rt upstream]
    by (auto simp: authorized_def)
next
  case False
  then show ?thesis
    unfolding authorized_def handler_def genAI_def by auto
qed

text \<open>The upstream model is called exactly for the requests that reach the \<^verbatim>\<open>try\<close>.\<close>

lemma upstream_called_iff:
  "snd (handler cfg rt upstream req) \<noteq> [] \<longleftrightarrow> (\<exists>p. reaches_generation cfg req p)"
proof (cases "authorized cfg req")
  case True
  show ?thesis
  proof (cases "userPrompt req")
    case (Inl e)
    then show ?thesis
      by (simp add: handler_authorized [OF True] reaches_generation_def)
  next
    case (Inr q)
    then show ?thesis
      by (simp add: handler_authorized [OF True] reaches_generation_def True generate_calls)
  qed
next
  case False
  then show ?thesis
    unfolding authorized_def handler_def genAI_def reaches_generation_def
    by (auto simp: authorized_def)
qed

lemma missingFields_nonempty_iff:
  "missingFields v \<noteq> [] \<longleftrightarrow>
     \<not> truthy (read_prop v ''title'') \<or> \<not> truthy (read_prop v ''summary'')
     \<or> \<not> truthy (read_prop v ''steps'')"
  by (auto simp: missingFields_def requiredFields_def)

lemma handler_parsed:
  assumes "reaches_generation cfg req p"
    and "upstream (fullPrompt rt p) = Completion raw promptFeedback"
    and "raw \<noteq> [] \<or> \<not> truthy (opt_prop promptFeedback ''blockReason'')"
    and "json_parse rt (cleanText raw) = Some parsed"
    and "respond_parsed rt raw parsed = Inr r"
  shows "handler cfg rt upstream req = (Sent r, [fullPrompt rt p])"
  using assms(2-5)
  by (auto simp: handler_reaches_generation [OF assms(1)] generate_def try_body_def
      parse_and_respond_def)

lemma map_of_without_key:
  "map_of (filter (\<lambda>kv. fst kv \<noteq> k) kvs) k' = (if k' = k then None else map_of kvs k')"
  by (induction kvs) auto

lemma read_prop_without_falsy:
  assumes "map_of kvs k = Some v" and "\<not> truthy v"
  shows "truthy (read_prop (JObj (filter (\<lambda>kv. fst kv \<noteq> k) kvs)) k') =
           truthy (read_prop (JObj kvs) k')"
    and "js_or (read_prop (JObj (filter (\<lambda>kv. fst kv \<noteq> k) kvs)) k') d =
           js_or (read_prop (JObj kvs) k') d"
    and "isArray (read_prop (JObj (filter (\<lambda>kv. fst kv \<noteq> k) kvs)) k') =
           isArray (read_prop (JObj kvs) k')"
    and "isArray (read_prop (JObj kvs) k') \<Longrightarrow>
           read_prop (JObj (filter (\<lambda>kv. fst kv \<noteq> k) kvs)) k' = read_prop (JObj kvs) k'"
    and "(if isArray (read_prop (JObj (filter (\<lambda>kv. fst kv \<noteq> k) kvs)) k')
          then read_prop (JObj (filter (\<lambda>kv. fst kv \<noteq> k) kvs)) k' else JArr []) =
         (if isArray (read_prop (JObj kvs) k') then read_prop (JObj kvs) k' else JArr [])"
proof -
  have r: "read_prop (JObj (filter (\<lambda>kv. fst kv \<noteq> k) kvs)) k' =
      (if k' = k then JUndefined else read_prop (JObj kvs) k')"
    by (simp add: map_of_without_key)
  have f: "read_prop (JObj kvs) k = v"
    using assms(1) by simp
  have na: "\<not> isArray v"
    using assms(2) by (cases v) simp_all
  show "truthy (read_prop (JObj (filter (\<lambda>kv. fst kv \<noteq> k) kvs)) k') =
           truthy (read_prop (JObj kvs) k')"
    unfolding r using f assms(2) by (cases "k' = k") simp_all
  show "js_or (read_prop (JObj (filter (\<lambda>kv. fst kv \<noteq> k) kvs)) k') d =
           js_or (read_prop (JObj kvs) k') d"
    unfolding r js_or_def using f assms(2) by (cases "k' = k") simp_all
  show "isArray (read_prop (JObj (filter (\<lambda>kv. fst kv \<noteq> k) kvs)) k') =
           isArray (read_prop (JObj kvs) k')"
    unfolding r using f na by (cases "k' = k") simp_all
  show "isArray (read_prop (JObj kvs) k') \<Longrightarrow>
           read_prop (JObj (filter (\<lambda>kv. fst kv \<noteq> k) kvs)) k' = read_prop (JObj kvs) k'"
    unfolding r using f na by (cases "k' = k") simp_all
  show "(if isArray (read_prop (JObj (filter (\<lambda>kv. fst kv \<noteq> k) kvs)) k')
          then read_prop (JObj (filter (\<lambda>kv. fst kv \<noteq> k) kvs)) k' else JArr []) =
         (if isArray (read_prop (JObj kvs) k') then read_prop (JObj kvs) k' else JArr [])"
    unfolding r using f na by (cases "k' = k") simp_all
qed

lemma join_mentions:
  "k \<in> set xs \<Longrightarrow> \<exists>a b. join sep xs = a @ k @ b"
proof (induction sep xs rule: join.induct)
  case (1 sep)
  then show ?case by simp
next
  case (2 sep x)
  then have "join sep [x] = [] @ k @ []" by simp
  then show ?case by blast
next
  case (3 sep x y ys)
  show ?case
  proof (cases "k = x")
    case True
    then have "join sep (x # y # ys) = [] @ k @ (sep @ join sep (y # ys))" by simp
    then show ?thesis by blast
  next
    case False
    then have "k \<in> set (y # ys)" using "3.prems" by simp
    then obtain a b where "join sep (y # ys) = a @ k @ b" using "3.IH" by blast
    then have "join sep (x # y # ys) = (x @ sep @ a) @ k @ b" by simp
    then show ?thesis by blast
  qed
qed

lemma missingFields_without_falsy:
  assumes "map_of kvs k = Some v" and "\<not> truthy v"
  shows "missingFields (JObj (filter (\<lambda>kv. fst kv \<noteq> k) kvs)) = missingFields (JObj kvs)"
  unfolding missingFields_def
  by (rule filter_cong) (simp_all only: read_prop_without_falsy(1) [OF assms])

lemma respond_parsed_without_falsy:
  assumes "map_of kvs k = Some v"
    and "\<not> truthy v"
    and "missingFields (JObj kvs) \<noteq> []"
  shows "respond_parsed rt raw (JObj kvs) =
         respond_parsed rt raw (JObj (filter (\<lambda>kv. fst kv \<noteq> k) kvs))"
  unfolding respond_parsed_def
  by (simp add: assms(3) missingFields_without_falsy [OF assms(1,2)]
      read_prop_without_falsy(2,5) [OF assms(1,2)] del: read_prop.simps)

lemma fallback_data_default:
  assumes "k \<in> set requiredFields"
    and "map_of kvs k = Some v"
    and "\<not> truthy v"
  shows "data_field (JObj [
          (''success'', x1),
          (''data'', JObj [
             (''title'', js_or (read_prop (JObj kvs) ''title'') (JStr ''QuickFix Response'')),
             (''summary'', js_or (read_prop (JObj kvs) ''summary'') (JStr ''Generated response'')),
             (''steps'', if isArray (read_prop (JObj kvs) ''steps'')
                         then read_prop (JObj kvs) ''steps'' else JArr []),
             (''tips'', x4), (''timeEstimate'', x5), (''difficulty'', x6), (''content'', x7)]),
          (''metadata'', x8)]) k =
        (if k = ''title'' then JStr ''QuickFix Response''
         else if k = ''summary'' then JStr ''Generated response''
         else JArr [])"
proof -
  have na: "\<not> isArray v"
    using assms(3) by (cases v) simp_all
  have "k = ''title'' \<or> k = ''summary'' \<or> k = ''steps''"
    using assms(1) by (simp add: requiredFields_def)
  then show ?thesis
  proof (elim disjE)
    assume "k = ''title''"
    then show ?thesis using assms(2,3) by (simp add: data_field_def js_or_def)
  next
    assume "k = ''summary''"
    then show ?thesis using assms(2,3) by (simp add: data_field_def js_or_def)
  next
    assume "k = ''steps''"
    then show ?thesis using assms(2) na by (simp add: data_field_def)
  qed
qed

lemma fallback_warning:
  "metadata_field (JObj [(''success'', y1), (''data'', y2),
      (''metadata'', JObj [(''timestamp'', y3), (''model'', y4), (''warning'', w)])])
     ''warning'' = w"
  by (simp add: metadata_field_def)

text \<open>
  The credential of each channel, and the answers to a missing or wrong one, in terms of
  the request: the \<^verbatim>\<open>x-api-key\<close> header, the \<^verbatim>\<open>Authorization: Bearer\<close> header, and the
  \<^verbatim>\<open>api_key\<close> query parameter; and the answer to an absent or empty prompt that was
  extracted.
\<close>

lemma bearerToken_Bearer:
  "req_headers req ''authorization'' = Some (''Bearer '' @ t) \<Longrightarrow> bearerToken req = JStr t"
  by (simp add: bearerToken_def)

lemma bearerToken_absent:
  "req_headers req ''authorization'' = None \<Longrightarrow> bearerToken req = JUndefined"
  by (simp add: bearerToken_def)

lemma no_credential_401:
  assumes "req_method req = ''POST'' \<or> req_method req = ''GET''"
    and "env_set (API_KEY cfg)"
    and "req_headers req ''x-api-key'' = None"
    and "req_headers req ''authorization'' = None"
    and "req_query req ''api_key'' = None"
  shows "sent_status (handler cfg rt upstream req) = Some 401"
  using assms
  by (simp add: sent_401_iff providedApiKey_def header_def bearerToken_def query_def js_or_def)

lemma wrong_header_key_403:
  assumes "req_method req = ''POST'' \<or> req_method req = ''GET''"
    and "API_KEY cfg = Some k" and "k \<noteq> []"
    and "req_headers req ''x-api-key'' = Some s" and "s \<noteq> []" and "s \<noteq> k"
  shows "sent_status (handler cfg rt upstream req) = Some 403"
  using assms
  by (simp add: sent_403_iff providedApiKey_def header_def js_or_def env_value_def)

lemma wrong_bearer_token_403:
  assumes "req_method req = ''POST'' \<or> req_method req = ''GET''"
    and "API_KEY cfg = Some k" and "k \<noteq> []"
    and "req_headers req ''x-api-key'' = None"
    and "req_headers req ''authorization'' = Some (''Bearer '' @ t)" and "t \<noteq> []" and "t \<noteq> k"
  shows "sent_status (handler cfg rt upstream req) = Some 403"
proof -
  have "providedApiKey req = JStr t"
    using assms(4,6) bearerToken_Bearer [OF assms(5)]
    by (simp add: providedApiKey_def header_def js_or_def)
  then show ?thesis
    using assms(1,2,3,6,7) by (simp add: sent_403_iff env_value_def)
qed

lemma right_bearer_token_accepted:
  assumes "req_headers req ''x-api-key'' = None"
    and "req_headers req ''authorization'' = Some (''Bearer '' @ k)" and "k \<noteq> []"
  shows "providedApiKey req = JStr k"
  using assms(1,3) bearerToken_Bearer [OF assms(2)]
  by (simp add: providedApiKey_def header_def js_or_def)

lemma wrong_query_key_403:
  assumes "req_method req = ''POST'' \<or> req_method req = ''GET''"
    and "API_KEY cfg = Some k" and "k \<noteq> []"
    and "req_headers req ''x-api-key'' = None"
    and "req_headers req ''authorization'' = None"
    and "req_query req ''api_key'' = Some (JStr q)" and "q \<noteq> []" and "q \<noteq> k"
  shows "sent_status (handler cfg rt upstream req) = Some 403"
  using assms
  by (simp add: sent_403_iff providedApiKey_def header_def bearerToken_def query_def js_or_def
      env_value_def)

lemma empty_prompt_400:
  assumes "authorized cfg req"
    and "userPrompt req = Inr p"
    and "p = JUndefined \<or> p = JStr []"
  shows "handler cfg rt upstream req =
     (Sent \<lparr>status = 400, json = JObj [
        (''error'', JStr ''Prompt is required.''),
        (''usage'', JObj [
           (''POST'', JStr ''Include 'prompt' in request body JSON''),
           (''GET'', JStr ''Include 'prompt' or 'q' as query parameter'')])]\<rparr>, [])"
proof -
  have "\<not> truthy p"
    using assms(3) by auto
  then show ?thesis
    using assms(2) by (simp add: handler_authorized [OF assms(1)])
qed

section \<open>The claims\<close>

subsection \<open>C1: steps and tips of a 200\<close>

text \<open>
  Claim C1 at an input where it fails. The upstream text
  \<^verbatim>\<open>{"title":"T","summary":"S","steps":"Boil water","tips":"Add salt"}\<close> has all required fields
  truthy, so the answer is built by lines 204 to 219, which pass \<^verbatim>\<open>steps\<close> and \<^verbatim>\<open>tips\<close> on
  without the \<^verbatim>\<open>Array.isArray\<close> test of lines 187 to 190: the answer is a 200 whose
  \<^verbatim>\<open>data.steps\<close> and \<^verbatim>\<open>data.tips\<close> are strings.
\<close>

theorem C1_non_array_steps_at_failing_input:
  \<open>sent_status (handler example_config
        (example_runtime [(''{"title":"T","summary":"S","steps":"Boil water","tips":"Add salt"}'',
           JObj [(''title'', JStr ''T''), (''summary'', JStr ''S''),
                 (''steps'', JStr ''Boil water''), (''tips'', JStr ''Add salt'')])])
        (\<lambda>q. Completion ''{"title":"T","summary":"S","steps":"Boil water","tips":"Add salt"}'' JUndefined)
        (example_post (JObj [(''prompt'', JStr ''How can I make pasta?'')]))) = Some 200
   \<and> data_field (sent_json (handler example_config
        (example_runtime [(''{"title":"T","summary":"S","steps":"Boil water","tips":"Add salt"}'',
           JObj [(''title'', JStr ''T''), (''summary'', JStr ''S''),
                 (''steps'', JStr ''Boil water''), (''tips'', JStr ''Add salt'')])])
        (\<lambda>q. Completion ''{"title":"T","summary":"S","steps":"Boil water","tips":"Add salt"}'' JUndefined)
        (example_post (JObj [(''prompt'', JStr ''How can I make pasta?'')])))) ''steps'' =
       JStr ''Boil water''
   \<and> data_field (sent_json (handler example_config
        (example_runtime [(''{"title":"T","summary":"S","steps":"Boil water","tips":"Add salt"}'',
           JObj [(''title'', JStr ''T''), (''summary'', JStr ''S''),
                 (''steps'', JStr ''Boil water''), (''tips'', JStr ''Add salt'')])])
        (\<lambda>q. Completion ''{"title":"T","summary":"S","steps":"Boil water","tips":"Add salt"}'' JUndefined)
        (example_post (JObj [(''prompt'', JStr ''How can I make pasta?'')])))) ''tips'' =
       JStr ''Add salt''\<close>
proof -
  let ?raw = \<open>''{"title":"T","summary":"S","steps":"Boil water","tips":"Add salt"}''\<close>
  have c: "cleanText ?raw = ?raw"
    by (simp add: cleanText_def trim_def js_space_def)
  show ?thesis
    by (simp add: handler_reaches_generation [OF example_post_reaches] generate_def try_body_def
      parse_and_respond_def c example_runtime_def respond_parsed_def missingFields_def
      requiredFields_def data_field_def js_or_def)
qed

subsection \<open>C2: credential channels\<close>

text \<open>
  Claim C2 at an input where it fails. A POST request carries the configured key in the
  \<^verbatim>\<open>api_key\<close> query parameter and no credential header. Line 70 reads
  \<^verbatim>\<open>req.query.api_key\<close> without a test of the method, although its comment and the guidance
  of lines 82 and 83 give the query parameter to GET only: the key is taken as the provided
  credential and the request is answered 200, not 401.
\<close>

theorem C2_post_query_key_at_failing_input:
  "req_headers
     \<lparr>req_method = ''POST'', req_headers = Map.empty,
      req_query = [''api_key'' \<mapsto> JStr ''secret''],
      req_body = JObj [(''prompt'', JStr ''How can I make pasta?'')]\<rparr> = Map.empty
   \<and> providedApiKey
     \<lparr>req_method = ''POST'', req_headers = Map.empty,
      req_query = [''api_key'' \<mapsto> JStr ''secret''],
      req_body = JObj [(''prompt'', JStr ''How can I make pasta?'')]\<rparr> = JStr ''secret''
   \<and> sent_status (handler example_config (example_runtime [])
        (\<lambda>q. Completion ''not json at all'' JUndefined)
        \<lparr>req_method = ''POST'', req_headers = Map.empty,
         req_query = [''api_key'' \<mapsto> JStr ''secret''],
         req_body = JObj [(''prompt'', JStr ''How can I make pasta?'')]\<rparr>) = Some 200"
proof -
  let ?req = "\<lparr>req_method = ''POST'', req_headers = Map.empty,
      req_query = [''api_key'' \<mapsto> JStr ''secret''],
      req_body = JObj [(''prompt'', JStr ''How can I make pasta?'')]\<rparr>"
  have p: "providedApiKey ?req = JStr ''secret''"
    by (simp add: providedApiKey_def header_def bearerToken_def query_def js_or_def)
  have "reaches_generation example_config ?req (JStr ''How can I make pasta?'')"
    by (simp add: reaches_generation_def authorized_def p example_config_def env_value_def
        userPrompt_def get_prop_def)
  then show ?thesis
    by (simp add: p handler_reaches_generation generate_def try_body_def parse_and_respond_def
        example_runtime_def)
qed

subsection \<open>C3: unparseable upstream text\<close>

text \<open>
  Claim C3, as amended. A request reaches the upstream call, the upstream returns a text
  that \<^verbatim>\<open>JSON.parse\<close> rejects after the fences are stripped and the text is trimmed, and the
  upstream did not return the empty text together with a block reason. Then the handler
  answers 200 with \<^verbatim>\<open>success: true\<close>, the placeholder title and summary, empty \<^verbatim>\<open>steps\<close> and
  \<^verbatim>\<open>tips\<close>, \<^verbatim>\<open>timeEstimate\<close> "Unknown", \<^verbatim>\<open>difficulty\<close> "unknown", the raw text as \<^verbatim>\<open>content\<close>, and
  \<^verbatim>\<open>metadata.parseError\<close> set.
\<close>

theorem C3_parse_failure_degrades:
  assumes "reaches_generation cfg req p"
    and "upstream (fullPrompt rt p) = Completion text promptFeedback"
    and "text \<noteq> [] \<or> \<not> truthy (opt_prop promptFeedback ''blockReason'')"
    and "json_parse rt (cleanText text) = None"
  shows "fst (handler cfg rt upstream req) =
     Sent \<lparr>status = 200, json = JObj [
       (''success'', JBool True),
       (''data'', JObj [
          (''title'', JStr ''QuickFix Response''),
          (''summary'', JStr ''Generated response''),
          (''content'', JStr text),
          (''steps'', JArr []),
          (''tips'', JArr []),
          (''timeEstimate'', JStr ''Unknown''),
          (''difficulty'', JStr ''unknown'')]),
       (''metadata'', JObj [
          (''timestamp'', JStr (now_iso rt)),
          (''model'', JStr MODEL_ID),
          (''parseError'', JStr ''Response was not valid JSON'')])]\<rparr>"
  using assms(2-4)
  by (auto simp: handler_reaches_generation [OF assms(1)] generate_def try_body_def
      parse_and_respond_def)

text \<open>Instance of C3: the upstream text \<^verbatim>\<open>not json at all\<close>.\<close>

theorem C3_parse_failure_degrades_witness:
  "json_parse (example_runtime []) (cleanText ''not json at all'') = None \<and>
   fst (handler example_config (example_runtime []) (\<lambda>q. Completion ''not json at all'' JUndefined)
          (example_post (JObj [(''prompt'', JStr ''How can I make pasta?'')]))) =
     Sent \<lparr>status = 200, json = JObj [
       (''success'', JBool True),
       (''data'', JObj [
          (''title'', JStr ''QuickFix Response''),
          (''summary'', JStr ''Generated response''),
          (''content'', JStr ''not json at all''),
          (''steps'', JArr []),
          (''tips'', JArr []),
          (''timeEstimate'', JStr ''Unknown''),
          (''difficulty'', JStr ''unknown'')]),
       (''metadata'', JObj [
          (''timestamp'', JStr ''2025-06-01T12:00:00.000Z''),
          (''model'', JStr MODEL_ID),
          (''parseError'', JStr ''Response was not valid JSON'')])]\<rparr>"
  using C3_parse_failure_degrades [OF example_post_reaches,
      of "\<lambda>q. Completion ''not json at all'' JUndefined" "example_runtime []"
         "''not json at all''" JUndefined]
  by (simp add: example_runtime_def)

text \<open>
  Claim C3 as stated fails where the upstream returns the empty text with a block reason:
  the empty text does not parse, and the answer is the 400 of line 135.
\<close>

theorem C3_blocked_counterexample:
  "json_parse (example_runtime []) (cleanText []) = None \<and>
   sent_status (handler example_config (example_runtime [])
      (\<lambda>q. Completion [] (JObj [(''blockReason'', JStr ''SAFETY'')]))
      (example_post (JObj [(''prompt'', JStr ''How can I make pasta?'')]))) = Some 400"
  by (simp add: handler_reaches_generation [OF example_post_reaches] generate_def try_body_def
      opt_prop_def example_runtime_def)

subsection \<open>C4: missing required fields\<close>

text \<open>
  Claim C4, as amended. The upstream text parses to an object in which at least one of
  \<^verbatim>\<open>title\<close>, \<^verbatim>\<open>summary\<close>, \<^verbatim>\<open>steps\<close> is missing (absent or falsy). Then the handler answers 200;
  \<^verbatim>\<open>title\<close>, \<^verbatim>\<open>summary\<close>, \<^verbatim>\<open>timeEstimate\<close> and \<^verbatim>\<open>difficulty\<close> are the parsed value when it is truthy
  and the named default otherwise; \<^verbatim>\<open>steps\<close> and \<^verbatim>\<open>tips\<close> are the parsed value when it is an
  array and the empty array otherwise; the raw text is \<^verbatim>\<open>content\<close>; and the warning lists
  exactly the missing required fields, in the order title, summary, steps.
\<close>

theorem C4_missing_fields_fallback:
  assumes "reaches_generation cfg req p"
    and "upstream (fullPrompt rt p) = Completion raw promptFeedback"
    and "raw \<noteq> [] \<or> \<not> truthy (opt_prop promptFeedback ''blockReason'')"
    and "json_parse rt (cleanText raw) = Some parsed"
    and "parsed = JObj kvs"
    and "\<not> truthy (read_prop parsed ''title'') \<or> \<not> truthy (read_prop parsed ''summary'')
         \<or> \<not> truthy (read_prop parsed ''steps'')"
    and "b = sent_json (handler cfg rt upstream req)"
  shows "sent_status (handler cfg rt upstream req) = Some 200
     \<and> read_prop b ''success'' = JBool True
     \<and> data_field b ''title'' =
         (if truthy (read_prop parsed ''title'') then read_prop parsed ''title''
          else JStr ''QuickFix Response'')
     \<and> data_field b ''summary'' =
         (if truthy (read_prop parsed ''summary'') then read_prop parsed ''summary''
          else JStr ''Generated response'')
     \<and> data_field b ''steps'' =
         (if isArray (read_prop parsed ''steps'') then read_prop parsed ''steps'' else JArr [])
     \<and> data_field b ''tips'' =
         (if isArray (read_prop parsed ''tips'') then read_prop parsed ''tips'' else JArr [])
     \<and> data_field b ''timeEstimate'' =
         (if truthy (read_prop parsed ''timeEstimate'') then read_prop parsed ''timeEstimate''
          else JStr ''Unknown'')
     \<and> data_field b ''difficulty'' =
         (if truthy (read_prop parsed ''difficulty'') then read_prop parsed ''difficulty''
          else JStr ''unknown'')
     \<and> data_field b ''content'' = JStr raw
     \<and> metadata_field b ''warning'' =
         JStr (''Missing fields: '' @
               join '', '' (filter (\<lambda>f. \<not> truthy (read_prop parsed f))
                                  [''title'', ''summary'', ''steps'']))"
proof -
  have m: "missingFields parsed \<noteq> []"
    using assms(6) by (simp add: missingFields_nonempty_iff)
  have n: "\<not> nullish parsed"
    using assms(5) by simp
  define r where "r = \<lparr>status = 200, json = JObj [
          (''success'', JBool True),
          (''data'', JObj [
             (''title'', js_or (read_prop parsed ''title'') (JStr ''QuickFix Response'')),
             (''summary'', js_or (read_prop parsed ''summary'') (JStr ''Generated response'')),
             (''steps'', if isArray (read_prop parsed ''steps'')
                         then read_prop parsed ''steps'' else JArr []),
             (''tips'', if isArray (read_prop parsed ''tips'')
                        then read_prop parsed ''tips'' else JArr []),
             (''timeEstimate'', js_or (read_prop parsed ''timeEstimate'') (JStr ''Unknown'')),
             (''difficulty'', js_or (read_prop parsed ''difficulty'') (JStr ''unknown'')),
             (''content'', JStr raw)]),
          (''metadata'', JObj [
             (''timestamp'', JStr (now_iso rt)),
             (''model'', JStr MODEL_ID),
             (''warning'', JStr (''Missing fields: '' @ join '', '' (missingFields parsed)))])]\<rparr>"
  have r: "respond_parsed rt raw parsed = Inr r"
    using m n by (simp add: respond_parsed_def r_def)
  have h: "handler cfg rt upstream req = (Sent r, [fullPrompt rt p])"
    using assms(1-4) r by (rule handler_parsed)
  have b: "b = json r"
    using assms(7) by (simp add: h)
  show ?thesis
    unfolding b
    by (simp add: h r_def data_field_def metadata_field_def js_or_def missingFields_def
        requiredFields_def)
qed

text \<open>
  Instance of C4: the upstream text \<^verbatim>\<open>{"title":"T","steps":["a"]}\<close>, which lacks \<^verbatim>\<open>summary\<close>.
\<close>

theorem C4_missing_fields_fallback_witness:
  \<open>sent_status (handler example_config
        (example_runtime [(''{"title":"T","steps":["a"]}'',
           JObj [(''title'', JStr ''T''), (''steps'', JArr [JStr ''a''])])])
        (\<lambda>q. Completion ''{"title":"T","steps":["a"]}'' JUndefined)
        (example_post (JObj [(''prompt'', JStr ''How can I make pasta?'')]))) = Some 200
   \<and> data_field (sent_json (handler example_config
        (example_runtime [(''{"title":"T","steps":["a"]}'',
           JObj [(''title'', JStr ''T''), (''steps'', JArr [JStr ''a''])])])
        (\<lambda>q. Completion ''{"title":"T","steps":["a"]}'' JUndefined)
        (example_post (JObj [(''prompt'', JStr ''How can I make pasta?'')])))) ''summary'' =
       JStr ''Generated response''
   \<and> data_field (sent_json (handler example_config
        (example_runtime [(''{"title":"T","steps":["a"]}'',
           JObj [(''title'', JStr ''T''), (''steps'', JArr [JStr ''a''])])])
        (\<lambda>q. Completion ''{"title":"T","steps":["a"]}'' JUndefined)
        (example_post (JObj [(''prompt'', JStr ''How can I make pasta?'')])))) ''steps'' =
       JArr [JStr ''a'']
   \<and> metadata_field (sent_json (handler example_config
        (example_runtime [(''{"title":"T","steps":["a"]}'',
           JObj [(''title'', JStr ''T''), (''steps'', JArr [JStr ''a''])])])
        (\<lambda>q. Completion ''{"title":"T","steps":["a"]}'' JUndefined)
        (example_post (JObj [(''prompt'', JStr ''How can I make pasta?'')])))) ''warning'' =
       JStr ''Missing fields: summary''\<close>
proof -
  let ?raw = \<open>''{"title":"T","steps":["a"]}''\<close>
  let ?obj = "JObj [(''title'', JStr ''T''), (''steps'', JArr [JStr ''a''])]"
  let ?rt = "example_runtime [(?raw, ?obj)]"
  let ?up = "\<lambda>q::string. Completion ?raw JUndefined"
  have c: "cleanText ?raw = ?raw"
    by (simp add: cleanText_def trim_def js_space_def)
  have "json_parse ?rt (cleanText ?raw) = Some ?obj"
    unfolding c by (simp add: example_runtime_def)
  from C4_missing_fields_fallback [OF example_post_reaches, of ?up ?rt ?raw JUndefined ?obj
      "[(''title'', JStr ''T''), (''steps'', JArr [JStr ''a''])]", OF _ _ this refl _ refl]
  show ?thesis by simp
qed

text \<open>
  Claim C4 as stated fails for a field that is present but not of the expected shape: in
  \<^verbatim>\<open>{"summary":"S","steps":"abc"}\<close> the title is missing and \<^verbatim>\<open>steps\<close> is present, yet the answer
  carries the empty array, not the parsed \<^verbatim>\<open>"abc"\<close>.
\<close>

theorem C4_present_steps_replaced_counterexample:
  \<open>read_prop (JObj [(''summary'', JStr ''S''), (''steps'', JStr ''abc'')]) ''steps'' = JStr ''abc''
   \<and> sent_status (handler example_config
        (example_runtime [(''{"summary":"S","steps":"abc"}'',
           JObj [(''summary'', JStr ''S''), (''steps'', JStr ''abc'')])])
        (\<lambda>q. Completion ''{"summary":"S","steps":"abc"}'' JUndefined)
        (example_post (JObj [(''prompt'', JStr ''How can I make pasta?'')]))) = Some 200
   \<and> data_field (sent_json (handler example_config
        (example_runtime [(''{"summary":"S","steps":"abc"}'',
           JObj [(''summary'', JStr ''S''), (''steps'', JStr ''abc'')])])
        (\<lambda>q. Completion ''{"summary":"S","steps":"abc"}'' JUndefined)
        (example_post (JObj [(''prompt'', JStr ''How can I make pasta?'')])))) ''steps'' = JArr []\<close>
proof -
  let ?raw = \<open>''{"summary":"S","steps":"abc"}''\<close>
  have c: "cleanText ?raw = ?raw"
    by (simp add: cleanText_def trim_def js_space_def)
  show ?thesis
    by (simp add: handler_reaches_generation [OF example_post_reaches] generate_def try_body_def
      parse_and_respond_def c example_runtime_def respond_parsed_def missingFields_def
      requiredFields_def data_field_def js_or_def)
qed

subsection \<open>C5: the fenced example\<close>

text \<open>
  Claim C5. For the upstream output that wraps \<^verbatim>\<open>{"title":"T","summary":"S","steps":["a","b"]}\<close>
  in a \<^verbatim>\<open>json\<close> fence, the cleaned text is that JSON text; given that \<^verbatim>\<open>JSON.parse\<close> reads it as
  the object it denotes, no required field is missing and the handler answers 200 with
  \<^verbatim>\<open>steps = ["a","b"]\<close>, \<^verbatim>\<open>tips = []\<close>, \<^verbatim>\<open>timeEstimate = "Unknown"\<close>, \<^verbatim>\<open>difficulty = "unknown"\<close>.
\<close>

theorem C5_fenced_json_example:
  assumes "reaches_generation cfg req p"
    and \<open>upstream (fullPrompt rt p) =
           Completion ''```json\<newline>{"title":"T","summary":"S","steps":["a","b"]}\<newline>```'' promptFeedback\<close>
    and \<open>json_parse rt ''{"title":"T","summary":"S","steps":["a","b"]}'' =
           Some (JObj [(''title'', JStr ''T''), (''summary'', JStr ''S''),
                       (''steps'', JArr [JStr ''a'', JStr ''b''])])\<close>
  shows \<open>cleanText ''```json\<newline>{"title":"T","summary":"S","steps":["a","b"]}\<newline>```'' =
           ''{"title":"T","summary":"S","steps":["a","b"]}''
     \<and> missingFields (JObj [(''title'', JStr ''T''), (''summary'', JStr ''S''),
                       (''steps'', JArr [JStr ''a'', JStr ''b''])]) = []
     \<and> fst (handler cfg rt upstream req) =
         Sent \<lparr>status = 200, json = JObj [
           (''success'', JBool True),
           (''data'', JObj [
              (''title'', JStr ''T''),
              (''summary'', JStr ''S''),
              (''steps'', JArr [JStr ''a'', JStr ''b'']),
              (''tips'', JArr []),
              (''timeEstimate'', JStr ''Unknown''),
              (''difficulty'', JStr ''unknown'')]),
           (''metadata'', JObj [
              (''timestamp'', JStr (now_iso rt)),
              (''model'', JStr MODEL_ID),
              (''stepCount'', JNum 2)])]\<rparr>\<close>
proof -
  let ?obj = "JObj [(''title'', JStr ''T''), (''summary'', JStr ''S''),
                    (''steps'', JArr [JStr ''a'', JStr ''b''])]"
  have m: "missingFields ?obj = []"
    by (simp add: missingFields_def requiredFields_def)
  have r: "respond_parsed rt raw ?obj =
      Inr \<lparr>status = 200, json = JObj [
           (''success'', JBool True),
           (''data'', JObj [
              (''title'', JStr ''T''),
              (''summary'', JStr ''S''),
              (''steps'', JArr [JStr ''a'', JStr ''b'']),
              (''tips'', JArr []),
              (''timeEstimate'', JStr ''Unknown''),
              (''difficulty'', JStr ''unknown'')]),
           (''metadata'', JObj [
              (''timestamp'', JStr (now_iso rt)),
              (''model'', JStr MODEL_ID),
              (''stepCount'', JNum 2)])]\<rparr>" for raw
    by (simp add: respond_parsed_def m js_or_def opt_prop_def)
  show ?thesis
    using assms(2,3)
    by (simp add: handler_reaches_generation [OF assms(1)] generate_def try_body_def
        parse_and_respond_def clean_fenced_example m r)
qed

text \<open>Instance of C5 on a runtime whose parser knows the one JSON text.\<close>

theorem C5_fenced_json_example_witness:
  \<open>fst (handler example_config
          (example_runtime [(''{"title":"T","summary":"S","steps":["a","b"]}'',
             JObj [(''title'', JStr ''T''), (''summary'', JStr ''S''),
                   (''steps'', JArr [JStr ''a'', JStr ''b''])])])
          (\<lambda>q. Completion ''```json\<newline>{"title":"T","summary":"S","steps":["a","b"]}\<newline>```'' JUndefined)
          (example_post (JObj [(''prompt'', JStr ''How can I make pasta?'')]))) =
     Sent \<lparr>status = 200, json = JObj [
       (''success'', JBool True),
       (''data'', JObj [
          (''title'', JStr ''T''),
          (''summary'', JStr ''S''),
          (''steps'', JArr [JStr ''a'', JStr ''b'']),
          (''tips'', JArr []),
          (''timeEstimate'', JStr ''Unknown''),
          (''difficulty'', JStr ''unknown'')]),
       (''metadata'', JObj [
          (''timestamp'', JStr ''2025-06-01T12:00:00.000Z''),
          (''model'', JStr MODEL_ID),
          (''stepCount'', JNum 2)])]\<rparr>\<close>
  using C5_fenced_json_example [OF example_post_reaches,
      of \<open>\<lambda>q. Completion ''```json\<newline>{"title":"T","summary":"S","steps":["a","b"]}\<newline>```'' JUndefined\<close>
         \<open>example_runtime [(''{"title":"T","summary":"S","steps":["a","b"]}'',
             JObj [(''title'', JStr ''T''), (''summary'', JStr ''S''),
                   (''steps'', JArr [JStr ''a'', JStr ''b''])])]\<close>
         JUndefined]
  by (simp add: example_runtime_def)

subsection \<open>C6: the fatal path\<close>

text \<open>
  Claim C6. When the body of the outer \<^verbatim>\<open>try\<close> throws (as it does when the upstream call
  throws), the handler answers 500 with \<^verbatim>\<open>success: false\<close>, the error
  "Failed to generate response" and the failure's message as \<^verbatim>\<open>details\<close>, and the body has
  no \<^verbatim>\<open>data\<close>. No other path answers 500 with \<^verbatim>\<open>success: false\<close>.
\<close>

theorem C6_fatal_path:
  "(reaches_generation cfg req p \<and> try_body rt upstream p = Inl e \<longrightarrow>
      handler cfg rt upstream req =
        (Sent \<lparr>status = 500, json = JObj [
           (''success'', JBool False),
           (''error'', JStr ''Failed to generate response''),
           (''details'', message e)]\<rparr>, [fullPrompt rt p])
      \<and> read_prop (sent_json (handler cfg rt upstream req)) ''data'' = JUndefined)
   \<and> (upstream (fullPrompt rt p) = Failure e \<longrightarrow> try_body rt upstream p = Inl e)
   \<and> (sent_status (handler cfg rt upstream req) = Some 500
        \<and> read_prop (sent_json (handler cfg rt upstream req)) ''success'' = JBool False \<longrightarrow>
       (\<exists>p' e'. reaches_generation cfg req p' \<and> try_body rt upstream p' = Inl e'))"
proof (intro conjI impI)
  assume a: "reaches_generation cfg req p \<and> try_body rt upstream p = Inl e"
  then have h: "handler cfg rt upstream req = generate rt upstream p"
    by (simp add: handler_reaches_generation)
  show "handler cfg rt upstream req =
        (Sent \<lparr>status = 500, json = JObj [
           (''success'', JBool False),
           (''error'', JStr ''Failed to generate response''),
           (''details'', message e)]\<rparr>, [fullPrompt rt p])"
    using a by (simp add: h generate_def)
  then show "read_prop (sent_json (handler cfg rt upstream req)) ''data'' = JUndefined"
    by simp
next
  assume "upstream (fullPrompt rt p) = Failure e"
  then show "try_body rt upstream p = Inl e"
    by (simp add: try_body_def)
next
  assume a: "sent_status (handler cfg rt upstream req) = Some 500
        \<and> read_prop (sent_json (handler cfg rt upstream req)) ''success'' = JBool False"
  show "\<exists>p' e'. reaches_generation cfg req p' \<and> try_body rt upstream p' = Inl e'"
  proof (cases "authorized cfg req")
    case False
    then show ?thesis
      using a unfolding authorized_def handler_def genAI_def
      by (auto split: if_splits)
  next
    case True
    show ?thesis
    proof (cases "userPrompt req")
      case (Inl x)
      then show ?thesis using a by (simp add: handler_authorized [OF True])
    next
      case (Inr q)
      show ?thesis
      proof (cases "truthy q")
        case False
        then show ?thesis using a Inr by (simp add: handler_authorized [OF True])
      next
        case tq: True
        have r: "reaches_generation cfg req q"
          using True Inr tq by (simp add: reaches_generation_def)
        have h: "handler cfg rt upstream req = generate rt upstream q"
          by (rule handler_reaches_generation [OF r])
        show ?thesis
        proof (cases "try_body rt upstream q")
          case (Inl x)
          then show ?thesis using r by blast
        next
          case (Inr s)
          then show ?thesis
            using a try_body_status [OF Inr] by (simp add: h generate_def)
        qed
      qed
    qed
  qed
qed

text \<open>Instance of C6: the upstream call throws \<^verbatim>\<open>fetch failed\<close>.\<close>

theorem C6_fatal_path_witness:
  "handler example_config (example_runtime [])
      (\<lambda>q. Failure (Exn (JStr ''fetch failed'')))
      (example_post (JObj [(''prompt'', JStr ''How can I make pasta?'')])) =
     (Sent \<lparr>status = 500, json = JObj [
        (''success'', JBool False),
        (''error'', JStr ''Failed to generate response''),
        (''details'', JStr ''fetch failed'')]\<rparr>,
      [fullPrompt (example_runtime []) (JStr ''How can I make pasta?'')])"
proof -
  let ?up = "\<lambda>q::string. Failure (Exn (JStr ''fetch failed''))"
  note c = C6_fatal_path [of example_config
      "example_post (JObj [(''prompt'', JStr ''How can I make pasta?'')])"
      "JStr ''How can I make pasta?''" "example_runtime []" ?up "Exn (JStr ''fetch failed'')"]
  have t: "try_body (example_runtime []) ?up (JStr ''How can I make pasta?'') =
      Inl (Exn (JStr ''fetch failed''))"
    using c by simp
  show ?thesis
    using c example_post_reaches t by simp
qed

subsection \<open>C7: content-policy block\<close>

text \<open>
  Claim C7. For a request that reaches the upstream call and gets a completion back: when
  the text is empty and a block reason is reported, the handler answers 400 with
  \<^verbatim>\<open>success: false\<close> and that reason, whatever the parser would do; otherwise its answer is
  the one of the parsing step. The 400 is sent in the first case only.
\<close>

theorem C7_block_short_circuit:
  assumes "reaches_generation cfg req p"
    and "upstream (fullPrompt rt p) = Completion raw promptFeedback"
  shows "(raw = [] \<and> truthy (opt_prop promptFeedback ''blockReason'') \<longrightarrow>
            opt_prop promptFeedback ''blockReason'' = read_prop promptFeedback ''blockReason'' \<and>
            fst (handler cfg rt upstream req) =
              Sent \<lparr>status = 400, json = JObj [
                (''success'', JBool False),
                (''error'', JStr ''Content generation blocked''),
                (''reason'', read_prop promptFeedback ''blockReason'')]\<rparr>)
       \<and> (\<not> (raw = [] \<and> truthy (opt_prop promptFeedback ''blockReason'')) \<longrightarrow>
            fst (handler cfg rt upstream req) =
              (case parse_and_respond rt raw of
                 Inl e \<Rightarrow> Sent \<lparr>status = 500, json = JObj [
                            (''success'', JBool False),
                            (''error'', JStr ''Failed to generate response''),
                            (''details'', message e)]\<rparr>
               | Inr r \<Rightarrow> Sent r))
       \<and> (sent_status (handler cfg rt upstream req) = Some 400 \<longleftrightarrow>
            raw = [] \<and> truthy (opt_prop promptFeedback ''blockReason''))"
proof -
  have h: "handler cfg rt upstream req = generate rt upstream p"
    by (rule handler_reaches_generation [OF assms(1)])
  show ?thesis
  proof (cases "raw = [] \<and> truthy (opt_prop promptFeedback ''blockReason'')")
    case True
    then show ?thesis
      using assms(2) by (auto simp: h generate_def try_body_def opt_prop_def split: if_splits)
  next
    case False
    then have t: "try_body rt upstream p = parse_and_respond rt raw"
      using assms(2) by (auto simp: try_body_def)
    show ?thesis
      using False
      by (auto simp: h generate_def t split: sum.splits dest: parse_and_respond_status)
  qed
qed

text \<open>Instances of C7: an empty text with a block reason, and a non-empty text with one.\<close>

theorem C7_block_short_circuit_witness:
  "fst (handler example_config (example_runtime [])
          (\<lambda>q. Completion [] (JObj [(''blockReason'', JStr ''SAFETY'')]))
          (example_post (JObj [(''prompt'', JStr ''How can I make pasta?'')]))) =
     Sent \<lparr>status = 400, json = JObj [
       (''success'', JBool False),
       (''error'', JStr ''Content generation blocked''),
       (''reason'', JStr ''SAFETY'')]\<rparr>
   \<and> sent_status (handler example_config (example_runtime [])
          (\<lambda>q. Completion ''not json at all'' (JObj [(''blockReason'', JStr ''SAFETY'')]))
          (example_post (JObj [(''prompt'', JStr ''How can I make pasta?'')]))) = Some 200"
  using C7_block_short_circuit [OF example_post_reaches,
      of "\<lambda>q. Completion [] (JObj [(''blockReason'', JStr ''SAFETY'')])" "example_runtime []"
         "[]" "JObj [(''blockReason'', JStr ''SAFETY'')]"]
    C7_block_short_circuit [OF example_post_reaches,
      of "\<lambda>q. Completion ''not json at all'' (JObj [(''blockReason'', JStr ''SAFETY'')])"
         "example_runtime []" "''not json at all''" "JObj [(''blockReason'', JStr ''SAFETY'')]"]
  by (simp add: opt_prop_def parse_and_respond_def example_runtime_def sent_status_fst)

subsection \<open>C8: absent or empty prompt\<close>

text \<open>
  Claim C8 at an input where it fails. A POST request with the right key and no body has no
  prompt, yet it is not answered 400: line 99 reads \<^verbatim>\<open>req.body.prompt\<close> on \<^verbatim>\<open>undefined\<close>, outside
  the \<^verbatim>\<open>try\<close>, and the \<^verbatim>\<open>TypeError\<close> escapes the handler before any response is sent. (The
  upstream model is not called.)
\<close>

theorem C8_post_without_body_at_failing_input:
  "authorized example_config (example_post JUndefined)
   \<and> handler example_config (example_runtime []) (\<lambda>q. Completion [] JUndefined)
        (example_post JUndefined) =
       (Uncaught (Exn (JStr ''Cannot read properties of undefined (reading 'prompt')'')), [])
   \<and> sent_status (handler example_config (example_runtime []) (\<lambda>q. Completion [] JUndefined)
        (example_post JUndefined)) = None"
proof -
  have u: "userPrompt (example_post JUndefined) = Inl (type_error JUndefined ''prompt'')"
    by (simp add: userPrompt_def get_prop_def) (simp add: example_post_def)
  have h: "handler example_config (example_runtime []) (\<lambda>q. Completion [] JUndefined)
        (example_post JUndefined) = (Uncaught (type_error JUndefined ''prompt''), [])"
    by (simp add: handler_authorized [OF example_post_authorized] u)
  show ?thesis
    unfolding h by (simp add: example_post_authorized type_error_def)
qed

subsection \<open>C9: missing versus wrong credential\<close>

text \<open>
  Claim C9 at an input where it fails. A POST request has no credential header and a
  wrong key in the \<^verbatim>\<open>api_key\<close> query parameter, which the guidance of line 82 does not
  list for POST. Line 70 reads the query parameter for every method, so the request counts
  as one with a wrong credential and is answered 403, not the 401 of a request without
  credential.
\<close>

theorem C9_post_wrong_query_key_at_failing_input:
  "req_headers
     \<lparr>req_method = ''POST'', req_headers = Map.empty,
      req_query = [''api_key'' \<mapsto> JStr ''guess''],
      req_body = JObj [(''prompt'', JStr ''How can I make pasta?'')]\<rparr> = Map.empty
   \<and> handler example_config (example_runtime []) (\<lambda>q. Completion [] JUndefined)
        \<lparr>req_method = ''POST'', req_headers = Map.empty,
         req_query = [''api_key'' \<mapsto> JStr ''guess''],
         req_body = JObj [(''prompt'', JStr ''How can I make pasta?'')]\<rparr> =
       (Sent \<lparr>status = 403, json = JObj [(''error'', JStr ''Invalid API key.'')]\<rparr>, [])"
  by (simp add: handler_def providedApiKey_def header_def bearerToken_def query_def js_or_def
      example_config_def env_value_def)

subsection \<open>C10: falsy required fields\<close>

text \<open>
  Claim C10. A required field that is present in the parsed object with a falsy value
  counts as missing: the field is in the list of missing fields, the answer is the one of
  the fallback path (200, with a warning that names the field), the field carries its
  default, and the whole answer equals the answer for the object without that key.
\<close>

theorem C10_falsy_counts_as_missing:
  assumes "k \<in> set requiredFields"
    and "map_of kvs k = Some v"
    and "\<not> truthy v"
  shows "k \<in> set (missingFields (JObj kvs))
     \<and> respond_parsed rt raw (JObj kvs) =
         respond_parsed rt raw (JObj (filter (\<lambda>kv. fst kv \<noteq> k) kvs))
     \<and> (\<exists>r. respond_parsed rt raw (JObj kvs) = Inr r \<and> status r = 200
           \<and> data_field (json r) k =
               (if k = ''title'' then JStr ''QuickFix Response''
                else if k = ''summary'' then JStr ''Generated response''
                else JArr [])
           \<and> (\<exists>a b. metadata_field (json r) ''warning'' =
                       JStr (''Missing fields: '' @ a @ k @ b)))"
proof (intro conjI)
  show m: "k \<in> set (missingFields (JObj kvs))"
    using assms by (simp add: missingFields_def)
  then have ne: "missingFields (JObj kvs) \<noteq> []"
    by auto
  show "respond_parsed rt raw (JObj kvs) =
         respond_parsed rt raw (JObj (filter (\<lambda>kv. fst kv \<noteq> k) kvs))"
    by (rule respond_parsed_without_falsy [OF assms(2,3) ne])
  obtain a b where ab: "join '', '' (missingFields (JObj kvs)) = a @ k @ b"
    using join_mentions [OF m] by blast
  define r where "r = \<lparr>status = 200, json = JObj [
          (''success'', JBool True),
          (''data'', JObj [
             (''title'', js_or (read_prop (JObj kvs) ''title'') (JStr ''QuickFix Response'')),
             (''summary'', js_or (read_prop (JObj kvs) ''summary'') (JStr ''Generated response'')),
             (''steps'', if isArray (read_prop (JObj kvs) ''steps'')
                         then read_prop (JObj kvs) ''steps'' else JArr []),
             (''tips'', if isArray (read_prop (JObj kvs) ''tips'')
                        then read_prop (JObj kvs) ''tips'' else JArr []),
             (''timeEstimate'', js_or (read_prop (JObj kvs) ''timeEstimate'') (JStr ''Unknown'')),
             (''difficulty'', js_or (read_prop (JObj kvs) ''difficulty'') (JStr ''unknown'')),
             (''content'', JStr raw)]),
          (''metadata'', JObj [
             (''timestamp'', JStr (now_iso rt)),
             (''model'', JStr MODEL_ID),
             (''warning'', JStr (''Missing fields: '' @ join '', '' (missingFields (JObj kvs))))])]\<rparr>"
  have r1: "respond_parsed rt raw (JObj kvs) = Inr r"
    unfolding respond_parsed_def r_def using ne by (simp del: read_prop.simps)
  have r2: "status r = 200"
    by (simp add: r_def)
  have r3: "data_field (json r) k =
               (if k = ''title'' then JStr ''QuickFix Response''
                else if k = ''summary'' then JStr ''Generated response''
                else JArr [])"
    unfolding r_def response.simps by (rule fallback_data_default [OF assms])
  have r4: "metadata_field (json r) ''warning'' = JStr (''Missing fields: '' @ a @ k @ b)"
    unfolding r_def response.simps fallback_warning ab by (rule refl)
  show "\<exists>r. respond_parsed rt raw (JObj kvs) = Inr r \<and> status r = 200
           \<and> data_field (json r) k =
               (if k = ''title'' then JStr ''QuickFix Response''
                else if k = ''summary'' then JStr ''Generated response''
                else JArr [])
           \<and> (\<exists>a b. metadata_field (json r) ''warning'' =
                       JStr (''Missing fields: '' @ a @ k @ b))"
    using r1 r2 r3 r4 by blast
qed

text \<open>
  Instance of C10: the parsed object \<^verbatim>\<open>{"title":"","summary":"S","steps":["a"]}\<close>, whose title
  is the empty string, is answered like \<^verbatim>\<open>{"summary":"S","steps":["a"]}\<close>.
\<close>

theorem C10_falsy_counts_as_missing_witness:
  \<open>missingFields (JObj [(''title'', JStr []), (''summary'', JStr ''S''),
                        (''steps'', JArr [JStr ''a''])]) = [''title'']
   \<and> respond_parsed (example_runtime []) ''{"title":"","summary":"S","steps":["a"]}''
        (JObj [(''title'', JStr []), (''summary'', JStr ''S''), (''steps'', JArr [JStr ''a''])]) =
       respond_parsed (example_runtime []) ''{"title":"","summary":"S","steps":["a"]}''
        (JObj [(''summary'', JStr ''S''), (''steps'', JArr [JStr ''a''])])\<close>
proof -
  have m: "missingFields (JObj [(''title'', JStr []), (''summary'', JStr ''S''),
                        (''steps'', JArr [JStr ''a''])]) = [''title'']"
    by (simp add: missingFields_def requiredFields_def)
  have k: "''title'' \<in> set requiredFields"
    by (simp add: requiredFields_def)
  have l: "map_of [(''title'', JStr []), (''summary'', JStr ''S''),
      (''steps'', JArr [JStr ''a''])] ''title'' = Some (JStr [])"
    by simp
  have f: "\<not> truthy (JStr [])"
    by simp
  from C10_falsy_counts_as_missing [OF k l f, of "example_runtime []"]
  show ?thesis using m by simp
qed

end
